theory Spec2Isabelle
  imports Main "HOL-Library.AList"
begin

section \<open>The Brevo API client (src/dj\_brevo/services/client.py)\<close>

subsection \<open>Values\<close>

text \<open>
  The values a payload or a response body holds (Python's \<open>Any\<close>, as far as JSON
  reaches). The client never inspects a numeric leaf, so integers stand for numbers.
  A Python \<open>dict\<close> is an association list in insertion order; \<open>d[k] = v\<close> is
  \<open>AList.update k v d\<close> (overwrite in place, or append), \<open>k in d\<close> is
  \<open>map_of d k \<noteq> None\<close>.
\<close>

datatype json =
    JNull
  | JBool bool
  | JInt int
  | JStr string
  | JList "json list"
  | JDict "(string \<times> json) list"

type_synonym dict = "(string \<times> json) list"      \<comment> \<open>\<open>dict[str, Any]\<close>\<close>
type_synonym str_dict = "(string \<times> string) list" \<comment> \<open>\<open>dict[str, str]\<close>\<close>

text \<open>A \<open>dict[str, str]\<close> and a \<open>list[dict[str, str]]\<close> stored as a value of a payload.\<close>

definition str_dict_json :: "str_dict \<Rightarrow> json" where
  "str_dict_json d = JDict (map (\<lambda>(k, v). (k, JStr v)) d)"

definition recipients_json :: "str_dict list \<Rightarrow> json" where
  "recipients_json ds = JList (map str_dict_json ds)"

text \<open>
  Python's truth test on an optional string, list or dict (all of them lists here):
  \<open>None\<close> and the empty value are false, everything else is true.
\<close>

fun truthy :: "'a list option \<Rightarrow> bool" where
  "truthy None = False"
| "truthy (Some xs) = (xs \<noteq> [])"

text \<open>The statement \<open>if x: payload[k] = x\<close>, with \<open>f\<close> storing \<open>x\<close> as a value.\<close>

definition set_if_truthy :: "string \<Rightarrow> ('a list \<Rightarrow> json) \<Rightarrow> 'a list option \<Rightarrow> dict \<Rightarrow> dict" where
  "set_if_truthy k f x payload =
     (case x of
        None \<Rightarrow> payload
      | Some v \<Rightarrow> if v \<noteq> [] then AList.update k (f v) payload else payload)"

subsection \<open>Collaborators outside the client\<close>

text \<open>
  Modelled from the spec: the settings object \<open>brevo_settings\<close> of
  \<open>dj_brevo.settings\<close>, which is not among the sources. Its attributes are the
  configuration surface the spec lists: API\_KEY, API\_BASE\_URL, TIMEOUT, SANDBOX,
  DEFAULT\_FROM\_EMAIL. It is a module-level global, so every function that reads it
  takes its current value as an argument.
\<close>

record settings =
  API_KEY :: "string option"
  API_BASE_URL :: string
  TIMEOUT :: int
  SANDBOX :: bool
  DEFAULT_FROM_EMAIL :: "string option"

text \<open>
  Modelled from the spec: the exceptions of \<open>dj_brevo.exceptions\<close>, which is not
  among the sources. The three API errors carry \<open>message\<close>, \<open>status_code\<close> and
  \<open>response_data\<close>, as the client constructs them. \<open>ValueError\<close> and
  \<open>RecursionError\<close> are what \<open>response.json()\<close> can raise (see \<open>json_outcome\<close>
  below), \<open>AttributeError\<close> is Python's own error for a method an object does not
  have, and \<open>TransportError\<close> is any exception of \<open>httpx.post\<close> itself (the client
  does not catch it).
\<close>

datatype error =
    BrevoConfigError string
  | BrevoAuthError json int dict
  | BrevoRateLimitError json int dict
  | BrevoAPIError json int dict
  | ValueError
  | RecursionError
  | AttributeError string
  | TransportError string

text \<open>
  The \<open>httpx\<close> library: a request as \<open>httpx.post\<close> receives it, and a response as
  the client reads it: \<open>status_code\<close>, \<open>text\<close> (here \<open>resp_text\<close>), and what
  \<open>json()\<close> does on its body. \<open>is_success\<close> is httpx's test for a 2xx status.

  \<open>json()\<close> hands the body to the standard parser. It returns the parsed value
  (\<open>Parsed\<close>); or the body is not JSON, or not text in the encoding it announces, and
  the parser raises \<open>JSONDecodeError\<close> or \<open>UnicodeDecodeError\<close>, both of them a
  \<open>ValueError\<close> (\<open>Malformed\<close>); or the body nests arrays or objects deeper than
  the interpreter's recursion limit, about a thousand levels, and the parser raises
  \<open>RecursionError\<close>, which is not a \<open>ValueError\<close> (\<open>TooDeep\<close>).
\<close>

datatype json_outcome = Parsed json | Malformed | TooDeep

record request =
  url :: string
  body :: dict
  headers :: str_dict
  req_timeout :: int

record response =
  status_code :: int
  resp_text :: string
  parsed :: json_outcome

definition response_json :: "response \<Rightarrow> error + json" where
  "response_json r =
     (case parsed r of
        Parsed v \<Rightarrow> Inr v
      | Malformed \<Rightarrow> Inl ValueError
      | TooDeep \<Rightarrow> Inl RecursionError)"

definition is_success :: "response \<Rightarrow> bool" where
  "is_success r = (200 \<le> status_code r \<and> status_code r \<le> 299)"

text \<open>
  The network: how the remote end answers a request (a response, or a transport failure
  with its name), and the requests issued so far, oldest first.
\<close>

record network =
  server :: "request \<Rightarrow> string + response"
  sent :: "request list"

definition httpx_post :: "request \<Rightarrow> network \<Rightarrow> (string + response) \<times> network" where
  "httpx_post rq net = (server net rq, net\<lparr>sent := sent net @ [rq]\<rparr>)"

text \<open>The requests issued between an earlier and a later state of the network.\<close>

definition dispatched :: "network \<Rightarrow> network \<Rightarrow> request list" where
  "dispatched net net' = drop (length (sent net)) (sent net')"

subsection \<open>BrevoClient\<close>

record client =
  api_key :: string
  base_url :: string
  timeout :: int
  sandbox :: bool

definition api_key_missing :: string where
  "api_key_missing =
     ''Brevo API key not configured.'' @ ''Set DJ_BREVO['' @ [CHR 0x27] @ ''API_KEY'' @ [CHR 0x27]
       @ ''] in your Django settings''"

definition no_sender :: string where
  "no_sender =
     ''No sender provided and DJ_BREVO['' @ [CHR 0x27] @ ''DEFAULT_FROM_EMAIL'' @ [CHR 0x27]
       @ ''] not set.''"

text \<open>\<open>BrevoClient.__init__\<close>; \<open>a or b\<close> is \<open>a\<close> when \<open>a\<close> is true, else \<open>b\<close>.\<close>

definition BrevoClient_init :: "settings \<Rightarrow> string option \<Rightarrow> error + client" where
  "BrevoClient_init st api_key_arg =
     (case (if truthy api_key_arg then api_key_arg else API_KEY st) of
        None \<Rightarrow> Inl (BrevoConfigError api_key_missing)
      | Some key \<Rightarrow>
          if key = [] then Inl (BrevoConfigError api_key_missing)
          else Inr \<lparr>api_key = key,
                    base_url = API_BASE_URL st,
                    timeout = TIMEOUT st,
                    sandbox = SANDBOX st\<rparr>)"

definition get_headers :: "client \<Rightarrow> str_dict" where
  "get_headers c =
     [(''api-key'', api_key c),
      (''Content-Type'', ''application/json''),
      (''Accept'', ''application/json'')]"

definition sandbox_headers :: json where
  "sandbox_headers = JDict [(''X-Sib-Sandbox'', JStr ''drop'')]"

text \<open>\<open>_apply_sandbox\<close>, on the contents of the payload.\<close>

definition apply_sandbox :: "client \<Rightarrow> dict \<Rightarrow> dict" where
  "apply_sandbox c payload =
     (if sandbox c then AList.update ''headers'' sandbox_headers payload else payload)"

text \<open>
  \<open>_apply_sandbox\<close>, on the object: the payload is a reference into a store of dicts,
  the assignment writes into the cell of that reference, and the reference itself is
  returned.
\<close>

type_synonym ref = nat
type_synonym store = "ref \<Rightarrow> dict"

definition apply_sandbox_ref :: "client \<Rightarrow> ref \<Rightarrow> store \<Rightarrow> ref \<times> store" where
  "apply_sandbox_ref c payload h =
     (payload,
      if sandbox c then h(payload := AList.update ''headers'' sandbox_headers (h payload)) else h)"

text \<open>
  \<open>_handle_response\<close>. \<open>except ValueError\<close> catches a \<open>ValueError\<close> and lets
  every other exception of \<open>response.json()\<close> through. \<open>data\<close> is whatever
  \<open>response.json()\<close> returned, a dict or not; \<open>data.get\<close> exists on a dict only.
\<close>

definition handle_response :: "response \<Rightarrow> error + json" where
  "handle_response r =
     (case (case response_json r of
              Inl e \<Rightarrow> if e = ValueError then Inr (JDict []) else Inl e
            | Inr v \<Rightarrow> Inr v) of
        Inl e \<Rightarrow> Inl e
      | Inr data \<Rightarrow>
          if is_success r then Inr data
          else
            (case data of
               JDict d \<Rightarrow>
                 (let message = (case map_of d ''message'' of Some m \<Rightarrow> m | None \<Rightarrow> JStr (resp_text r))
                  in if status_code r = 401 then Inl (BrevoAuthError message 401 d)
                     else if status_code r = 429 then Inl (BrevoRateLimitError message 429 d)
                     else Inl (BrevoAPIError message (status_code r) d))
             | _ \<Rightarrow> Inl (AttributeError ''get'')))"

text \<open>\<open>_post\<close>.\<close>

definition post :: "client \<Rightarrow> string \<Rightarrow> dict \<Rightarrow> network \<Rightarrow> (error + json) \<times> network" where
  "post c endpoint payload net =
     (let rq = \<lparr>url = base_url c @ endpoint,
                 body = payload,
                 headers = get_headers c,
                 req_timeout = timeout c\<rparr>;
          (reply, net') = httpx_post rq net
      in case reply of
           Inl e \<Rightarrow> (Inl (TransportError e), net')
         | Inr r \<Rightarrow> (handle_response r, net'))"

text \<open>\<open>send_email\<close>; \<open>st\<close> is the settings object as it is when the call runs.\<close>

definition send_email ::
  "settings \<Rightarrow> client \<Rightarrow> str_dict list \<Rightarrow> string \<Rightarrow> string \<Rightarrow> str_dict option \<Rightarrow> string option
     \<Rightarrow> str_dict option \<Rightarrow> str_dict list option \<Rightarrow> str_dict list option \<Rightarrow> network
     \<Rightarrow> (error + json) \<times> network" where
  "send_email st c to subject html_content sender text_content reply_to cc bcc net =
     (case (case sender of
              None \<Rightarrow>
                (case DEFAULT_FROM_EMAIL st of
                   None \<Rightarrow> Inl (BrevoConfigError no_sender)
                 | Some default_email \<Rightarrow>
                     if default_email = [] then Inl (BrevoConfigError no_sender)
                     else Inr [(''email'', default_email)])
            | Some s \<Rightarrow> Inr s) of
        Inl e \<Rightarrow> (Inl e, net)
      | Inr sender' \<Rightarrow>
          (let payload = [(''sender'', str_dict_json sender'),
                          (''to'', recipients_json to),
                          (''subject'', JStr subject),
                          (''htmlContent'', JStr html_content)];
               payload = set_if_truthy ''textContent'' JStr text_content payload;
               payload = set_if_truthy ''replyTo'' str_dict_json reply_to payload;
               payload = set_if_truthy ''cc'' recipients_json cc payload;
               payload = set_if_truthy ''bcc'' recipients_json bcc payload
           in post c ''/smtp/email'' (apply_sandbox c payload) net))"

text \<open>\<open>send_template_email\<close>; it reads no setting.\<close>

definition send_template_email ::
  "client \<Rightarrow> str_dict list \<Rightarrow> int \<Rightarrow> dict option \<Rightarrow> str_dict option \<Rightarrow> str_dict option
     \<Rightarrow> str_dict list option \<Rightarrow> str_dict list option \<Rightarrow> network
     \<Rightarrow> (error + json) \<times> network" where
  "send_template_email c to template_id params sender reply_to cc bcc net =
     (let payload = [(''to'', recipients_json to),
                     (''templateId'', JInt template_id)];
          payload = set_if_truthy ''params'' JDict params payload;
          payload = set_if_truthy ''sender'' str_dict_json sender payload;
          payload = set_if_truthy ''replyTo'' str_dict_json reply_to payload;
          payload = set_if_truthy ''cc'' recipients_json cc payload;
          payload = set_if_truthy ''bcc'' recipients_json bcc payload
      in post c ''/smtp/email'' (apply_sandbox c payload) net)"

text \<open>
  A call of one of the two public operations on a constructed client, made while the
  settings object is \<open>st\<close>. The settings object is a global of the module, within
  reach of every method; \<open>send_template_email\<close> does not read it.
\<close>

datatype call =
    SendEmail "str_dict list" string string "str_dict option" "string option"
      "str_dict option" "str_dict list option" "str_dict list option"
  | SendTemplateEmail "str_dict list" int "dict option" "str_dict option"
      "str_dict option" "str_dict list option" "str_dict list option"

fun invoke :: "settings \<Rightarrow> client \<Rightarrow> call \<Rightarrow> network \<Rightarrow> (error + json) \<times> network" where
  "invoke st c (SendEmail to subject html_content sender text_content reply_to cc bcc) net =
     send_email st c to subject html_content sender text_content reply_to cc bcc net"
| "invoke st c (SendTemplateEmail to template_id params sender reply_to cc bcc) net =
     send_template_email c to template_id params sender reply_to cc bcc net"

subsection \<open>Concrete inputs\<close>

definition st0 :: settings where
  "st0 = \<lparr>API_KEY = Some ''test-key'', API_BASE_URL = ''https://api.brevo.com/v3'',
           TIMEOUT = 10, SANDBOX = False, DEFAULT_FROM_EMAIL = Some ''d@b.com''\<rparr>"

definition st_blank :: settings where
  "st_blank = \<lparr>API_KEY = None, API_BASE_URL = ''https://api.brevo.com/v3'',
           TIMEOUT = 10, SANDBOX = True, DEFAULT_FROM_EMAIL = None\<rparr>"

definition c0 :: client where
  "c0 = \<lparr>api_key = ''test-key'', base_url = ''https://api.brevo.com/v3'', timeout = 10,
          sandbox = False\<rparr>"

definition c1 :: client where
  "c1 = \<lparr>api_key = ''test-key'', base_url = ''https://api.brevo.com/v3'', timeout = 10,
          sandbox = True\<rparr>"

definition ok_response :: response where
  "ok_response = \<lparr>status_code = 200, resp_text = ''{messageId: m1}'',
                   parsed = Parsed (JDict [(''messageId'', JStr ''m1'')])\<rparr>"

definition net0 :: network where
  "net0 = \<lparr>server = (\<lambda>_. Inr ok_response), sent = []\<rparr>"

definition deep_response :: "int \<Rightarrow> response" where
  "deep_response code =
     \<lparr>status_code = code, resp_text = replicate 100000 (CHR ''[''), parsed = TooDeep\<rparr>"

definition net_deep :: "int \<Rightarrow> network" where
  "net_deep code = \<lparr>server = (\<lambda>_. Inr (deep_response code)), sent = []\<rparr>"

definition h0 :: store where
  "h0 = (\<lambda>_. [])(0 := [(''to'', JList []), (''headers'', JStr ''mine'')], 1 := [(''to'', JList [])])"

section \<open>Properties\<close>

lemma truthy_iff: "truthy x \<longleftrightarrow> (\<exists>v. x = Some v \<and> v \<noteq> [])"
  by (cases x) simp_all


lemma map_of_set_if_truthy:
  "map_of (set_if_truthy k f x p) k' =
     (if k' = k \<and> truthy x then map_option f x else map_of p k')"
  by (cases x) (simp_all add: set_if_truthy_def AList.update_conv')

lemma snd_post:
  "snd (post c e p net) =
     net\<lparr>sent := sent net @ [\<lparr>url = base_url c @ e, body = p, headers = get_headers c,
                                req_timeout = timeout c\<rparr>]\<rparr>"
  by (simp add: post_def httpx_post_def Let_def split: sum.splits)

lemma fst_post:
  "fst (post c e p net) =
     (case server net \<lparr>url = base_url c @ e, body = p, headers = get_headers c,
                        req_timeout = timeout c\<rparr> of
        Inl x \<Rightarrow> Inl (TransportError x)
      | Inr r \<Rightarrow> handle_response r)"
  by (simp add: post_def httpx_post_def Let_def split: sum.splits)

lemma dispatched_post:
  "dispatched net (snd (post c e p net)) =
     [\<lparr>url = base_url c @ e, body = p, headers = get_headers c, req_timeout = timeout c\<rparr>]"
  by (simp add: snd_post dispatched_def)

lemma dispatched_same: "dispatched net net = []"
  by (simp add: dispatched_def)

lemma map_of_apply_sandbox:
  "map_of (apply_sandbox c p) k =
     (if sandbox c \<and> k = ''headers'' then Some sandbox_headers else map_of p k)"
  by (simp add: apply_sandbox_def AList.update_conv')

lemma handle_response_unparsed:
  "parsed r = Malformed \<Longrightarrow>
   handle_response r =
     (if is_success r then Inr (JDict [])
      else if status_code r = 401 then Inl (BrevoAuthError (JStr (resp_text r)) 401 [])
      else if status_code r = 429 then Inl (BrevoRateLimitError (JStr (resp_text r)) 429 [])
      else Inl (BrevoAPIError (JStr (resp_text r)) (status_code r) []))"
  by (simp add: handle_response_def response_json_def)

lemma handle_response_object:
  "parsed r = Parsed (JDict d) \<Longrightarrow>
   handle_response r =
     (if is_success r then Inr (JDict d)
      else if status_code r = 401
        then Inl (BrevoAuthError (case map_of d ''message'' of Some m \<Rightarrow> m | None \<Rightarrow> JStr (resp_text r)) 401 d)
      else if status_code r = 429
        then Inl (BrevoRateLimitError (case map_of d ''message'' of Some m \<Rightarrow> m | None \<Rightarrow> JStr (resp_text r)) 429 d)
      else Inl (BrevoAPIError (case map_of d ''message'' of Some m \<Rightarrow> m | None \<Rightarrow> JStr (resp_text r)) (status_code r) d))"
  by (simp add: handle_response_def response_json_def Let_def)

lemma handle_response_too_deep: "parsed r = TooDeep \<Longrightarrow> handle_response r = Inl RecursionError"
  by (simp add: handle_response_def response_json_def)

lemma handle_response_not_ValueError: "handle_response r \<noteq> Inl ValueError"
  by (auto simp add: handle_response_def response_json_def Let_def
      split: json_outcome.splits json.splits)

lemma handle_response_not_ConfigError: "handle_response r \<noteq> Inl (BrevoConfigError m)"
  by (auto simp add: handle_response_def response_json_def Let_def
      split: json_outcome.splits json.splits)

lemma fst_post_not_ConfigError: "fst (post c e p net) \<noteq> Inl (BrevoConfigError m)"
  by (simp add: fst_post handle_response_not_ConfigError split: sum.splits)

text \<open>The payload \<open>send_email\<close> hands to \<open>_apply_sandbox\<close>, read as a map.\<close>

lemma send_email_resolved:
  assumes "(\<exists>s. sender = Some s) \<or> truthy (DEFAULT_FROM_EMAIL st)"
  shows "\<exists>p. send_email st c to subject html_content sender text_content reply_to cc bcc net
               = post c ''/smtp/email'' (apply_sandbox c p) net
     \<and> (\<forall>k. map_of p k =
          (if k = ''bcc'' then (if truthy bcc then map_option recipients_json bcc else None)
           else if k = ''cc'' then (if truthy cc then map_option recipients_json cc else None)
           else if k = ''replyTo''
             then (if truthy reply_to then map_option str_dict_json reply_to else None)
           else if k = ''textContent''
             then (if truthy text_content then map_option JStr text_content else None)
           else if k = ''sender''
             then Some (str_dict_json
                    (case sender of
                       Some s \<Rightarrow> s
                     | None \<Rightarrow> [(''email'', case DEFAULT_FROM_EMAIL st of Some d \<Rightarrow> d | None \<Rightarrow> [])]))
           else if k = ''to'' then Some (recipients_json to)
           else if k = ''subject'' then Some (JStr subject)
           else if k = ''htmlContent'' then Some (JStr html_content)
           else None))"
proof -
  let ?s = "case sender of
              Some s \<Rightarrow> s
            | None \<Rightarrow> [(''email'', case DEFAULT_FROM_EMAIL st of Some d \<Rightarrow> d | None \<Rightarrow> [])]"
  let ?p = "set_if_truthy ''bcc'' recipients_json bcc
             (set_if_truthy ''cc'' recipients_json cc
               (set_if_truthy ''replyTo'' str_dict_json reply_to
                 (set_if_truthy ''textContent'' JStr text_content
                   [(''sender'', str_dict_json ?s),
                    (''to'', recipients_json to),
                    (''subject'', JStr subject),
                    (''htmlContent'', JStr html_content)])))"
  have "send_email st c to subject html_content sender text_content reply_to cc bcc net
          = post c ''/smtp/email'' (apply_sandbox c ?p) net"
    using assms
    by (cases sender; cases "DEFAULT_FROM_EMAIL st") (simp_all add: send_email_def Let_def)
  moreover have "map_of ?p k =
          (if k = ''bcc'' then (if truthy bcc then map_option recipients_json bcc else None)
           else if k = ''cc'' then (if truthy cc then map_option recipients_json cc else None)
           else if k = ''replyTo''
             then (if truthy reply_to then map_option str_dict_json reply_to else None)
           else if k = ''textContent''
             then (if truthy text_content then map_option JStr text_content else None)
           else if k = ''sender'' then Some (str_dict_json ?s)
           else if k = ''to'' then Some (recipients_json to)
           else if k = ''subject'' then Some (JStr subject)
           else if k = ''htmlContent'' then Some (JStr html_content)
           else None)" for k
    by (simp add: map_of_set_if_truthy)
  ultimately show ?thesis
    by blast
qed

lemma send_email_unresolved:
  assumes "sender = None" "\<not> truthy (DEFAULT_FROM_EMAIL st)"
  shows "send_email st c to subject html_content sender text_content reply_to cc bcc net =
    (Inl (BrevoConfigError no_sender), net)"
  using assms
  by (cases "DEFAULT_FROM_EMAIL st") (simp_all add: send_email_def Let_def)

text \<open>The same for \<open>send_template_email\<close>.\<close>

lemma send_template_email_payload:
  "\<exists>p. send_template_email c to template_id params sender reply_to cc bcc net
               = post c ''/smtp/email'' (apply_sandbox c p) net
     \<and> (\<forall>k. map_of p k =
          (if k = ''bcc'' then (if truthy bcc then map_option recipients_json bcc else None)
           else if k = ''cc'' then (if truthy cc then map_option recipients_json cc else None)
           else if k = ''replyTo''
             then (if truthy reply_to then map_option str_dict_json reply_to else None)
           else if k = ''sender''
             then (if truthy sender then map_option str_dict_json sender else None)
           else if k = ''params'' then (if truthy params then map_option JDict params else None)
           else if k = ''to'' then Some (recipients_json to)
           else if k = ''templateId'' then Some (JInt template_id)
           else None))"
proof -
  let ?p = "set_if_truthy ''bcc'' recipients_json bcc
             (set_if_truthy ''cc'' recipients_json cc
               (set_if_truthy ''replyTo'' str_dict_json reply_to
                 (set_if_truthy ''sender'' str_dict_json sender
                   (set_if_truthy ''params'' JDict params
                     [(''to'', recipients_json to),
                      (''templateId'', JInt template_id)]))))"
  have "send_template_email c to template_id params sender reply_to cc bcc net
          = post c ''/smtp/email'' (apply_sandbox c ?p) net"
    by (simp add: send_template_email_def Let_def)
  moreover have "map_of ?p k =
          (if k = ''bcc'' then (if truthy bcc then map_option recipients_json bcc else None)
           else if k = ''cc'' then (if truthy cc then map_option recipients_json cc else None)
           else if k = ''replyTo''
             then (if truthy reply_to then map_option str_dict_json reply_to else None)
           else if k = ''sender''
             then (if truthy sender then map_option str_dict_json sender else None)
           else if k = ''params'' then (if truthy params then map_option JDict params else None)
           else if k = ''to'' then Some (recipients_json to)
           else if k = ''templateId'' then Some (JInt template_id)
           else None)" for k
    by (simp add: map_of_set_if_truthy)
  ultimately show ?thesis
    by blast
qed

lemma set_values_nonempty:
  "(if truthy x then map_option JStr x else None)
     \<notin> {Some JNull, Some (JStr []), Some (JList []), Some (JDict [])}"
  "(if truthy y then map_option str_dict_json y else None)
     \<notin> {Some JNull, Some (JStr []), Some (JList []), Some (JDict [])}"
  "(if truthy z then map_option recipients_json z else None)
     \<notin> {Some JNull, Some (JStr []), Some (JList []), Some (JDict [])}"
  by (cases x; cases y; cases z; simp add: str_dict_json_def recipients_json_def)+

text \<open>What an operation returns, read off the request it issued.\<close>

lemma send_template_email_result:
  assumes "dispatched net
             (snd (send_template_email c to template_id params sender reply_to cc bcc net)) = [rq]"
  shows "fst (send_template_email c to template_id params sender reply_to cc bcc net) =
     (case server net rq of Inl x \<Rightarrow> Inl (TransportError x) | Inr r \<Rightarrow> handle_response r)"
proof -
  from send_template_email_payload [of c to template_id params sender reply_to cc bcc net]
  obtain p where
    e: "send_template_email c to template_id params sender reply_to cc bcc net
          = post c ''/smtp/email'' (apply_sandbox c p) net"
    by blast
  from assms have "rq = \<lparr>url = base_url c @ ''/smtp/email'', body = apply_sandbox c p,
                         headers = get_headers c, req_timeout = timeout c\<rparr>"
    by (simp add: e dispatched_post)
  then show ?thesis
    by (simp add: e fst_post)
qed

lemma send_email_result:
  assumes "dispatched net
             (snd (send_email st c to subject html_content sender text_content reply_to cc bcc net))
           = [rq]"
  shows "fst (send_email st c to subject html_content sender text_content reply_to cc bcc net) =
     (case server net rq of Inl x \<Rightarrow> Inl (TransportError x) | Inr r \<Rightarrow> handle_response r)"
proof (cases "sender = None \<and> \<not> truthy (DEFAULT_FROM_EMAIL st)")
  case True
  then have "send_email st c to subject html_content sender text_content reply_to cc bcc net
               = (Inl (BrevoConfigError no_sender), net)"
    by (simp add: send_email_unresolved)
  with assms show ?thesis
    by (simp add: dispatched_same)
next
  case False
  then have "(\<exists>s. sender = Some s) \<or> truthy (DEFAULT_FROM_EMAIL st)"
    by auto
  from send_email_resolved [OF this, of c to subject html_content text_content reply_to cc bcc net]
  obtain p where
    e: "send_email st c to subject html_content sender text_content reply_to cc bcc net
          = post c ''/smtp/email'' (apply_sandbox c p) net"
    by blast
  from assms have "rq = \<lparr>url = base_url c @ ''/smtp/email'', body = apply_sandbox c p,
                         headers = get_headers c, req_timeout = timeout c\<rparr>"
    by (simp add: e dispatched_post)
  then show ?thesis
    by (simp add: e fst_post)
qed

text \<open>
  A 2xx answer whose body is not JSON (\<open>Malformed\<close>) to the request that was issued
  makes either operation return the empty dict.
\<close>

lemma send_template_email_malformed_success:
  assumes "dispatched net
             (snd (send_template_email c to template_id params sender reply_to cc bcc net)) = [rq]"
    and "server net rq = Inr r" and "is_success r" and "parsed r = Malformed"
  shows "fst (send_template_email c to template_id params sender reply_to cc bcc net)
           = Inr (JDict [])"
  using assms(2-) by (simp add: send_template_email_result [OF assms(1)] handle_response_unparsed)

lemma send_email_malformed_success:
  assumes "dispatched net
             (snd (send_email st c to subject html_content sender text_content reply_to cc bcc net))
           = [rq]"
    and "server net rq = Inr r" and "is_success r" and "parsed r = Malformed"
  shows "fst (send_email st c to subject html_content sender text_content reply_to cc bcc net)
           = Inr (JDict [])"
  using assms(2-) by (simp add: send_email_result [OF assms(1)] handle_response_unparsed)

text \<open>\<open>send_email\<close> without a sender, under a default sender.\<close>

lemma send_email_default_dispatched:
  assumes "DEFAULT_FROM_EMAIL st = Some d" and "d \<noteq> []"
  shows "\<exists>rq. dispatched net
                (snd (send_email st c to subject html_content None text_content reply_to cc bcc net))
              = [rq]
           \<and> map_of (body rq) ''sender'' = Some (JDict [(''email'', JStr d)])"
proof -
  from assms have "(\<exists>s. (None :: str_dict option) = Some s) \<or> truthy (DEFAULT_FROM_EMAIL st)"
    by simp
  from send_email_resolved [OF this, of c to subject html_content text_content reply_to cc bcc net]
  obtain p where
    e: "send_email st c to subject html_content None text_content reply_to cc bcc net
          = post c ''/smtp/email'' (apply_sandbox c p) net"
    and p: "map_of p ''sender'' = Some (str_dict_json [(''email'', d)])"
    by (auto simp add: assms)
  let ?rq = "\<lparr>url = base_url c @ ''/smtp/email'', body = apply_sandbox c p,
               headers = get_headers c, req_timeout = timeout c\<rparr>"
  from p show ?thesis
    by (intro exI [of _ ?rq])
      (simp add: e dispatched_post map_of_apply_sandbox str_dict_json_def)
qed

lemma send_email_same_default:
  assumes "(\<exists>s. sender = Some s) \<or> DEFAULT_FROM_EMAIL st1 = DEFAULT_FROM_EMAIL st2
             \<or> (\<not> truthy (DEFAULT_FROM_EMAIL st1) \<and> \<not> truthy (DEFAULT_FROM_EMAIL st2))"
  shows "send_email st1 c to subject html_content sender text_content reply_to cc bcc net
       = send_email st2 c to subject html_content sender text_content reply_to cc bcc net"
proof (cases "sender = None \<and> \<not> truthy (DEFAULT_FROM_EMAIL st1)
                \<and> \<not> truthy (DEFAULT_FROM_EMAIL st2)")
  case True
  then show ?thesis
    by (simp add: send_email_unresolved)
next
  case False
  with assms have "(\<exists>s. sender = Some s) \<or> DEFAULT_FROM_EMAIL st1 = DEFAULT_FROM_EMAIL st2"
    by auto
  then show ?thesis
    by (cases sender) (auto simp add: send_email_def)
qed

lemma send_email_other_default:
  assumes "send_email st1 c to subject html_content None text_content reply_to cc bcc net
         = send_email st2 c to subject html_content None text_content reply_to cc bcc net"
    and "truthy (DEFAULT_FROM_EMAIL st1)"
  shows "DEFAULT_FROM_EMAIL st1 = DEFAULT_FROM_EMAIL st2"
proof -
  from assms(2) obtain d1 where d1: "DEFAULT_FROM_EMAIL st1 = Some d1" "d1 \<noteq> []"
    by (auto simp add: truthy_iff)
  from send_email_default_dispatched [OF d1, of net c to subject html_content text_content
      reply_to cc bcc]
  obtain rq where
    rq: "dispatched net
           (snd (send_email st1 c to subject html_content None text_content reply_to cc bcc net))
         = [rq]"
    and s1: "map_of (body rq) ''sender'' = Some (JDict [(''email'', JStr d1)])"
    by blast
  show ?thesis
  proof (cases "truthy (DEFAULT_FROM_EMAIL st2)")
    case False
    then have "send_email st2 c to subject html_content None text_content reply_to cc bcc net
                 = (Inl (BrevoConfigError no_sender), net)"
      by (simp add: send_email_unresolved)
    with rq assms(1) show ?thesis
      by (simp add: dispatched_same)
  next
    case True
    then obtain d2 where d2: "DEFAULT_FROM_EMAIL st2 = Some d2" "d2 \<noteq> []"
      by (auto simp add: truthy_iff)
    from send_email_default_dispatched [OF d2, of net c to subject html_content text_content
        reply_to cc bcc]
    obtain rq' where
      rq': "dispatched net
             (snd (send_email st2 c to subject html_content None text_content reply_to cc bcc net))
           = [rq']"
      and s2: "map_of (body rq') ''sender'' = Some (JDict [(''email'', JStr d2)])"
      by blast
    from rq rq' assms(1) have "rq = rq'"
      by simp
    with s1 s2 have "d1 = d2"
      by simp
    with d1 d2 show ?thesis
      by simp
  qed
qed

section \<open>The claims\<close>

text \<open>
  C1. Every response with a non-2xx status should raise the typed error of its status
  code (\<open>BrevoAuthError\<close> for 401, \<open>BrevoRateLimitError\<close> for 429,
  \<open>BrevoAPIError\<close> otherwise) with the resolved message, the status code and the
  parsed body. The handler does so when the body is a JSON object
  (\<open>handle_response_object\<close>) or is not JSON (\<open>handle_response_unparsed\<close>).
  It does not when the body is valid JSON of another shape: \<open>response.json()\<close>
  returns a list, a string, a number or \<open>None\<close>, and \<open>data.get\<close> raises
  \<open>AttributeError\<close> before any typed error is built. Here: status 500 with the body
  \<open>[]\<close>, and status 401 with the body \<open>null\<close>.
\<close>

theorem handle_response_non_object_body:
  "handle_response \<lparr>status_code = 500, resp_text = ''[]'', parsed = Parsed (JList [])\<rparr>
     = Inl (AttributeError ''get'')
   \<and> handle_response \<lparr>status_code = 401, resp_text = ''null'', parsed = Parsed JNull\<rparr>
     = Inl (AttributeError ''get'')"
  by (simp add: handle_response_def response_json_def is_success_def)

text \<open>
  C2. When \<open>send_email\<close> has a sender (supplied, or the configured default), it
  issues one request, and the payload of that request holds \<open>sender\<close>, \<open>to\<close>,
  \<open>subject\<close> and \<open>htmlContent\<close>; it holds \<open>textContent\<close>, \<open>replyTo\<close>,
  \<open>cc\<close>, \<open>bcc\<close> exactly when the matching argument is true in Python's sense,
  with that argument as the value. For an argument that is \<open>None\<close>, an empty string,
  an empty dict or an empty list the key is absent: it is never there with a null or an
  empty value.
\<close>

theorem send_email_payload_keys:
  assumes "(\<exists>s. sender = Some s) \<or> truthy (DEFAULT_FROM_EMAIL st)"
  shows "\<exists>rq. dispatched net
                (snd (send_email st c to subject html_content sender text_content reply_to cc bcc net))
              = [rq]
     \<and> (\<exists>s. map_of (body rq) ''sender'' = Some (str_dict_json s))
     \<and> map_of (body rq) ''to'' = Some (recipients_json to)
     \<and> map_of (body rq) ''subject'' = Some (JStr subject)
     \<and> map_of (body rq) ''htmlContent'' = Some (JStr html_content)
     \<and> map_of (body rq) ''textContent''
         = (if truthy text_content then map_option JStr text_content else None)
     \<and> map_of (body rq) ''replyTo''
         = (if truthy reply_to then map_option str_dict_json reply_to else None)
     \<and> map_of (body rq) ''cc'' = (if truthy cc then map_option recipients_json cc else None)
     \<and> map_of (body rq) ''bcc'' = (if truthy bcc then map_option recipients_json bcc else None)
     \<and> (\<forall>k \<in> {''textContent'', ''replyTo'', ''cc'', ''bcc''}.
           map_of (body rq) k \<notin> {Some JNull, Some (JStr []), Some (JList []), Some (JDict [])})"
proof -
  from send_email_resolved [OF assms] obtain p where
    e: "send_email st c to subject html_content sender text_content reply_to cc bcc net
          = post c ''/smtp/email'' (apply_sandbox c p) net"
    and p: "\<And>k. map_of p k =
          (if k = ''bcc'' then (if truthy bcc then map_option recipients_json bcc else None)
           else if k = ''cc'' then (if truthy cc then map_option recipients_json cc else None)
           else if k = ''replyTo''
             then (if truthy reply_to then map_option str_dict_json reply_to else None)
           else if k = ''textContent''
             then (if truthy text_content then map_option JStr text_content else None)
           else if k = ''sender''
             then Some (str_dict_json
                    (case sender of
                       Some s \<Rightarrow> s
                     | None \<Rightarrow> [(''email'', case DEFAULT_FROM_EMAIL st of Some d \<Rightarrow> d | None \<Rightarrow> [])]))
           else if k = ''to'' then Some (recipients_json to)
           else if k = ''subject'' then Some (JStr subject)
           else if k = ''htmlContent'' then Some (JStr html_content)
           else None)"
    by blast
  have t: "map_of (apply_sandbox c p) ''textContent''
      = (if truthy text_content then map_option JStr text_content else None)"
    by (simp add: map_of_apply_sandbox p)
  have r: "map_of (apply_sandbox c p) ''replyTo''
      = (if truthy reply_to then map_option str_dict_json reply_to else None)"
    by (simp add: map_of_apply_sandbox p)
  have cc: "map_of (apply_sandbox c p) ''cc''
      = (if truthy cc then map_option recipients_json cc else None)"
    by (simp add: map_of_apply_sandbox p)
  have bcc: "map_of (apply_sandbox c p) ''bcc''
      = (if truthy bcc then map_option recipients_json bcc else None)"
    by (simp add: map_of_apply_sandbox p)
  have "map_of (apply_sandbox c p) ''sender'' = Some (str_dict_json
                    (case sender of
                       Some s \<Rightarrow> s
                     | None \<Rightarrow> [(''email'', case DEFAULT_FROM_EMAIL st of Some d \<Rightarrow> d | None \<Rightarrow> [])]))"
    by (simp add: map_of_apply_sandbox p)
  then have sd: "\<exists>s. map_of (apply_sandbox c p) ''sender'' = Some (str_dict_json s)"
    by blast
  have req:
     "map_of (apply_sandbox c p) ''to'' = Some (recipients_json to)"
     "map_of (apply_sandbox c p) ''subject'' = Some (JStr subject)"
     "map_of (apply_sandbox c p) ''htmlContent'' = Some (JStr html_content)"
    by (simp_all add: map_of_apply_sandbox p)
  show ?thesis
    unfolding e dispatched_post
    apply (rule exI, rule conjI, rule refl)
    apply (simp only: request.simps sd req t r cc bcc ball_simps set_values_nonempty)
    apply blast
    done
qed

text \<open>
  At a concrete call: a sender, a text body, no reply-to, an empty \<open>cc\<close> list and no
  \<open>bcc\<close>, under settings with no default sender.
\<close>

theorem send_email_payload_keys_witness:
  "((\<exists>s. Some [(''email'', ''s@b.com'')] = Some s) \<or> truthy (DEFAULT_FROM_EMAIL st_blank))
   \<and> (\<exists>rq. dispatched net0
        (snd (send_email st_blank c0 [[(''email'', ''a@b.com'')]] ''S'' ''<p>x</p>''
               (Some [(''email'', ''s@b.com'')]) (Some ''hello'') None (Some []) None net0)) = [rq]
      \<and> map_of (body rq) ''to'' = Some (JList [JDict [(''email'', JStr ''a@b.com'')]])
      \<and> map_of (body rq) ''subject'' = Some (JStr ''S'')
      \<and> map_of (body rq) ''htmlContent'' = Some (JStr ''<p>x</p>'')
      \<and> map_of (body rq) ''textContent'' = Some (JStr ''hello'')
      \<and> map_of (body rq) ''replyTo'' = None
      \<and> map_of (body rq) ''cc'' = None
      \<and> map_of (body rq) ''bcc'' = None)"
  using send_email_payload_keys [of "Some [(''email'', ''s@b.com'')]" st_blank net0 c0
      "[[(''email'', ''a@b.com'')]]" "''S''" "''<p>x</p>''" "Some ''hello''" None "Some []" None]
  by (auto simp add: recipients_json_def str_dict_json_def)


text \<open>
  C3. For either operation, the payload of the request that is issued is the result of
  \<open>_apply_sandbox\<close> on a payload without a \<open>headers\<close> key. So with the sandbox
  flag off the dispatched payload has no \<open>headers\<close> key, and with the flag on its
  \<open>headers\<close> is the dict \<open>{"X-Sib-Sandbox": "drop"}\<close>. \<open>send_template_email\<close>
  always issues one request; \<open>send_email\<close> issues one unless it has neither a sender
  nor a default, and then it issues none.
\<close>

theorem sandbox_headers_on_dispatch:
  "(\<exists>rq p. dispatched net
        (snd (send_email st c to subject html_content sender text_content reply_to cc bcc net))
        = (if sender = None \<and> \<not> truthy (DEFAULT_FROM_EMAIL st) then [] else [rq])
      \<and> body rq = apply_sandbox c p \<and> map_of p ''headers'' = None
      \<and> map_of (body rq) ''headers''
          = (if sandbox c then Some (JDict [(''X-Sib-Sandbox'', JStr ''drop'')]) else None))
   \<and> (\<exists>rq p. dispatched net
        (snd (send_template_email c to template_id params sender' reply_to cc bcc net)) = [rq]
      \<and> body rq = apply_sandbox c p \<and> map_of p ''headers'' = None
      \<and> map_of (body rq) ''headers''
          = (if sandbox c then Some (JDict [(''X-Sib-Sandbox'', JStr ''drop'')]) else None))"
proof (rule conjI)
  obtain p where
    e: "send_template_email c to template_id params sender' reply_to cc bcc net
          = post c ''/smtp/email'' (apply_sandbox c p) net"
    and p: "map_of p ''headers'' = None"
    using send_template_email_payload [of c to template_id params sender' reply_to cc bcc net]
    by auto
  show "\<exists>rq p. dispatched net
        (snd (send_template_email c to template_id params sender' reply_to cc bcc net)) = [rq]
      \<and> body rq = apply_sandbox c p \<and> map_of p ''headers'' = None
      \<and> map_of (body rq) ''headers''
          = (if sandbox c then Some (JDict [(''X-Sib-Sandbox'', JStr ''drop'')]) else None)"
    using p by (intro exI [of _ "\<lparr>url = base_url c @ ''/smtp/email'', body = apply_sandbox c p,
                 headers = get_headers c, req_timeout = timeout c\<rparr>"] exI [of _ p])
        (simp add: e dispatched_post map_of_apply_sandbox sandbox_headers_def)
next
  show "\<exists>rq p. dispatched net
        (snd (send_email st c to subject html_content sender text_content reply_to cc bcc net))
        = (if sender = None \<and> \<not> truthy (DEFAULT_FROM_EMAIL st) then [] else [rq])
      \<and> body rq = apply_sandbox c p \<and> map_of p ''headers'' = None
      \<and> map_of (body rq) ''headers''
          = (if sandbox c then Some (JDict [(''X-Sib-Sandbox'', JStr ''drop'')]) else None)"
  proof (cases "sender = None \<and> \<not> truthy (DEFAULT_FROM_EMAIL st)")
    case True
    then have "send_email st c to subject html_content sender text_content reply_to cc bcc net
                 = (Inl (BrevoConfigError no_sender), net)"
      by (simp add: send_email_unresolved)
    with True show ?thesis
      by (intro exI [of _ "\<lparr>url = [], body = apply_sandbox c [], headers = [], req_timeout = 0\<rparr>"]
          exI [of _ "[]"])
        (simp add: dispatched_same map_of_apply_sandbox sandbox_headers_def)
  next
    case False
    then have "(\<exists>s. sender = Some s) \<or> truthy (DEFAULT_FROM_EMAIL st)"
      by auto
    from send_email_resolved [OF this, of c to subject html_content text_content reply_to cc bcc net]
    obtain p where
      e: "send_email st c to subject html_content sender text_content reply_to cc bcc net
            = post c ''/smtp/email'' (apply_sandbox c p) net"
      and p: "map_of p ''headers'' = None"
      by auto
    let ?rq = "\<lparr>url = base_url c @ ''/smtp/email'', body = apply_sandbox c p,
                 headers = get_headers c, req_timeout = timeout c\<rparr>"
    from False p show ?thesis
      by (intro exI [of _ ?rq] exI [of _ p])
        (simp add: e dispatched_post map_of_apply_sandbox sandbox_headers_def)
  qed
qed


text \<open>
  C4. \<open>send_email\<close> without a sender: when the settings hold a default address (a
  non-empty string) one request is issued and its payload's \<open>sender\<close> is
  \<open>{"email": <default address>}\<close>; when they hold none (\<open>None\<close> or the empty
  string) the call raises \<open>BrevoConfigError\<close> and the network is as it was before
  the call: no request was issued.
\<close>

theorem send_email_default_sender:
  "(truthy (DEFAULT_FROM_EMAIL st) \<longrightarrow>
      (\<exists>d rq. DEFAULT_FROM_EMAIL st = Some d
         \<and> dispatched net
              (snd (send_email st c to subject html_content None text_content reply_to cc bcc net))
             = [rq]
         \<and> map_of (body rq) ''sender'' = Some (JDict [(''email'', JStr d)])))
   \<and> (\<not> truthy (DEFAULT_FROM_EMAIL st) \<longrightarrow>
        send_email st c to subject html_content None text_content reply_to cc bcc net
          = (Inl (BrevoConfigError no_sender), net)
        \<and> dispatched net
             (snd (send_email st c to subject html_content None text_content reply_to cc bcc net))
            = [])"
proof (intro conjI impI)
  assume t: "truthy (DEFAULT_FROM_EMAIL st)"
  then obtain d where d: "DEFAULT_FROM_EMAIL st = Some d"
    by (auto simp add: truthy_iff)
  from t have "(\<exists>s. (None :: str_dict option) = Some s) \<or> truthy (DEFAULT_FROM_EMAIL st)"
    by simp
  from send_email_resolved [OF this, of c to subject html_content text_content reply_to cc bcc net]
  obtain p where
    e: "send_email st c to subject html_content None text_content reply_to cc bcc net
          = post c ''/smtp/email'' (apply_sandbox c p) net"
    and p: "map_of p ''sender'' = Some (str_dict_json [(''email'', d)])"
    by (auto simp add: d)
  let ?rq = "\<lparr>url = base_url c @ ''/smtp/email'', body = apply_sandbox c p,
               headers = get_headers c, req_timeout = timeout c\<rparr>"
  from p d
  show "\<exists>d rq. DEFAULT_FROM_EMAIL st = Some d
         \<and> dispatched net
              (snd (send_email st c to subject html_content None text_content reply_to cc bcc net))
             = [rq]
         \<and> map_of (body rq) ''sender'' = Some (JDict [(''email'', JStr d)])"
    by (intro exI [of _ d] exI [of _ ?rq])
      (simp add: e dispatched_post map_of_apply_sandbox str_dict_json_def)
next
  assume "\<not> truthy (DEFAULT_FROM_EMAIL st)"
  then show "send_email st c to subject html_content None text_content reply_to cc bcc net
          = (Inl (BrevoConfigError no_sender), net)"
    by (simp add: send_email_unresolved)
  then show "dispatched net
             (snd (send_email st c to subject html_content None text_content reply_to cc bcc net))
            = []"
    by (simp add: dispatched_same)
qed

text \<open>At settings with the default \<open>d@b.com\<close>, and at settings with no default.\<close>

theorem send_email_default_sender_witness:
  "truthy (DEFAULT_FROM_EMAIL st0)
   \<and> (\<exists>rq. dispatched net0
          (snd (send_email st0 c0 [[(''email'', ''a@b.com'')]] ''S'' ''<p>x</p>'' None None None
                  None None net0)) = [rq]
        \<and> map_of (body rq) ''sender'' = Some (JDict [(''email'', JStr ''d@b.com'')]))
   \<and> send_email st_blank c0 [[(''email'', ''a@b.com'')]] ''S'' ''<p>x</p>'' None None None
        None None net0 = (Inl (BrevoConfigError no_sender), net0)"
  using send_email_default_sender [of st0 net0 c0 "[[(''email'', ''a@b.com'')]]" "''S''"
      "''<p>x</p>''" None None None None]
    send_email_default_sender [of st_blank net0 c0 "[[(''email'', ''a@b.com'')]]" "''S''"
      "''<p>x</p>''" None None None None]
  by (auto simp add: st0_def st_blank_def)

text \<open>
  C5. Construction takes the API key from the argument when that is a non-empty string,
  and from the settings otherwise. When neither is a non-empty string it raises
  \<open>BrevoConfigError\<close>; otherwise it succeeds with that key, and with the base URL,
  the timeout and the sandbox flag of the settings as they are at construction. The
  constructor has no access to the network: it takes no network state and returns none.
\<close>

theorem init_resolves_api_key:
  "(\<not> truthy k \<and> \<not> truthy (API_KEY st) \<longrightarrow>
      BrevoClient_init st k = Inl (BrevoConfigError api_key_missing))
   \<and> (truthy k \<or> truthy (API_KEY st) \<longrightarrow>
      (\<exists>key. key \<noteq> [] \<and> (if truthy k then k else API_KEY st) = Some key
         \<and> BrevoClient_init st k =
             Inr \<lparr>api_key = key, base_url = API_BASE_URL st, timeout = TIMEOUT st,
                  sandbox = SANDBOX st\<rparr>))"
  by (cases k; cases "API_KEY st") (auto simp add: BrevoClient_init_def)

text \<open>
  No key anywhere, an empty argument and no configured key, an explicit key, and a
  configured key.
\<close>

theorem init_resolves_api_key_witness:
  "\<not> truthy None \<and> \<not> truthy (API_KEY st_blank)
   \<and> BrevoClient_init st_blank None = Inl (BrevoConfigError api_key_missing)
   \<and> BrevoClient_init st_blank (Some []) = Inl (BrevoConfigError api_key_missing)
   \<and> truthy (Some ''my-test-key'')
   \<and> BrevoClient_init st_blank (Some ''my-test-key'') =
        Inr \<lparr>api_key = ''my-test-key'', base_url = ''https://api.brevo.com/v3'', timeout = 10,
             sandbox = True\<rparr>
   \<and> truthy (API_KEY st0)
   \<and> BrevoClient_init st0 None = Inr c0"
  using init_resolves_api_key [of None st_blank] init_resolves_api_key [of "Some []" st_blank]
    init_resolves_api_key [of "Some ''my-test-key''" st_blank] init_resolves_api_key [of None st0]
  by (simp add: st0_def st_blank_def c0_def)

text \<open>
  C6. \<open>send_template_email\<close> always issues one request, and its payload holds
  \<open>to\<close> and \<open>templateId\<close>; it holds \<open>params\<close>, \<open>sender\<close>,
  \<open>replyTo\<close>, \<open>cc\<close>, \<open>bcc\<close> exactly when the matching argument is true in
  Python's sense, with that argument as the value. It reads no setting, so there is no
  default sender: without a sender the payload has no \<open>sender\<close> key, and the call
  never raises \<open>BrevoConfigError\<close>.
\<close>

theorem send_template_email_payload_keys:
  "\<exists>rq. dispatched net
           (snd (send_template_email c to template_id params sender reply_to cc bcc net)) = [rq]
     \<and> map_of (body rq) ''to'' = Some (recipients_json to)
     \<and> map_of (body rq) ''templateId'' = Some (JInt template_id)
     \<and> map_of (body rq) ''params'' = (if truthy params then map_option JDict params else None)
     \<and> map_of (body rq) ''sender''
         = (if truthy sender then map_option str_dict_json sender else None)
     \<and> map_of (body rq) ''replyTo''
         = (if truthy reply_to then map_option str_dict_json reply_to else None)
     \<and> map_of (body rq) ''cc'' = (if truthy cc then map_option recipients_json cc else None)
     \<and> map_of (body rq) ''bcc'' = (if truthy bcc then map_option recipients_json bcc else None)
     \<and> (\<forall>m. fst (send_template_email c to template_id params sender reply_to cc bcc net)
              \<noteq> Inl (BrevoConfigError m))"
proof -
  from send_template_email_payload [of c to template_id params sender reply_to cc bcc net]
  obtain p where
    e: "send_template_email c to template_id params sender reply_to cc bcc net
          = post c ''/smtp/email'' (apply_sandbox c p) net"
    and p: "\<And>k. map_of p k =
          (if k = ''bcc'' then (if truthy bcc then map_option recipients_json bcc else None)
           else if k = ''cc'' then (if truthy cc then map_option recipients_json cc else None)
           else if k = ''replyTo''
             then (if truthy reply_to then map_option str_dict_json reply_to else None)
           else if k = ''sender''
             then (if truthy sender then map_option str_dict_json sender else None)
           else if k = ''params'' then (if truthy params then map_option JDict params else None)
           else if k = ''to'' then Some (recipients_json to)
           else if k = ''templateId'' then Some (JInt template_id)
           else None)"
    by blast
  have l: "map_of (apply_sandbox c p) ''to'' = Some (recipients_json to)"
    "map_of (apply_sandbox c p) ''templateId'' = Some (JInt template_id)"
    "map_of (apply_sandbox c p) ''params''
       = (if truthy params then map_option JDict params else None)"
    "map_of (apply_sandbox c p) ''sender''
       = (if truthy sender then map_option str_dict_json sender else None)"
    "map_of (apply_sandbox c p) ''replyTo''
       = (if truthy reply_to then map_option str_dict_json reply_to else None)"
    "map_of (apply_sandbox c p) ''cc''
       = (if truthy cc then map_option recipients_json cc else None)"
    "map_of (apply_sandbox c p) ''bcc''
       = (if truthy bcc then map_option recipients_json bcc else None)"
    by (simp_all add: map_of_apply_sandbox p)
  show ?thesis
    unfolding e dispatched_post
    apply (rule exI, rule conjI, rule refl)
    apply (simp only: request.simps l fst_post_not_ConfigError)
    apply simp
    done
qed

text \<open>
  The call \<open>send_template_email(to=[{"email": "a@b.com"}], template_id=42,
  params={"firstName": "D"})\<close>.
\<close>

theorem send_template_email_example:
  "\<exists>rq. dispatched net0
           (snd (send_template_email c0 [[(''email'', ''a@b.com'')]] 42
                   (Some [(''firstName'', JStr ''D'')]) None None None None net0)) = [rq]
     \<and> map_of (body rq) ''templateId'' = Some (JInt 42)
     \<and> map_of (body rq) ''params'' = Some (JDict [(''firstName'', JStr ''D'')])
     \<and> map_of (body rq) ''sender'' = None"
  using send_template_email_payload_keys [of net0 c0 "[[(''email'', ''a@b.com'')]]" 42
      "Some [(''firstName'', JStr ''D'')]" None None None None]
  by auto


text \<open>
  C7. A response whose body fails to parse as JSON should be handled as one with the
  empty dict for a body, and the parse error should never reach the caller. The handler
  does so for the failures that are a \<open>ValueError\<close> (\<open>handle_response_unparsed\<close>,
  \<open>handle_response_not_ValueError\<close>). It does not for a body nested too deep for
  the parser: \<open>response.json()\<close> raises \<open>RecursionError\<close>, \<open>except ValueError\<close>
  does not catch it, and it reaches the caller in place of the typed error. Here:
  status 401 with a body of 100000 opening brackets.
\<close>

theorem handle_response_deep_body:
  "handle_response
     \<lparr>status_code = 401, resp_text = replicate 100000 (CHR ''[''), parsed = TooDeep\<rparr>
     = Inl RecursionError"
  by (rule handle_response_too_deep) (simp only: response.simps)

text \<open>
  C8, as stated, fails: \<open>send_email\<close> reads \<open>brevo_settings.DEFAULT_FROM_EMAIL\<close>
  when the call runs. The same client, the same arguments (no sender) and the same
  network give a sent message under settings with a default sender, and
  \<open>BrevoConfigError\<close> under settings that differ in nothing but the default sender.
\<close>

theorem send_email_reads_default_sender_at_call:
  "send_email st0 c0 [[(''email'', ''a@b.com'')]] ''S'' ''<p>x</p>'' None None None None None net0
     \<noteq> send_email (st0\<lparr>DEFAULT_FROM_EMAIL := None\<rparr>) c0 [[(''email'', ''a@b.com'')]] ''S''
          ''<p>x</p>'' None None None None None net0"
  by (simp add: send_email_def st0_def net0_def Let_def post_def httpx_post_def)

text \<open>
  C8, amended. What a call does is fixed by the client (the API key, base URL, timeout
  and sandbox flag it holds from its construction), the arguments and the network, with
  one exception: \<open>send_email\<close> without a sender looks up \<open>DEFAULT_FROM_EMAIL\<close> in
  the settings object when the call runs. So a call gives the same result, and leaves
  the same network, under any two settings objects, unless it is a \<open>send_email\<close>
  without a sender; and such a call does so exactly when the two settings objects hold
  the same default sender or both hold none (\<open>None\<close> or the empty string).
\<close>

theorem invoke_settings_dependence:
  "invoke st1 c call net = invoke st2 c call net \<longleftrightarrow>
     (\<forall>to subject html_content text_content reply_to cc bcc.
        call \<noteq> SendEmail to subject html_content None text_content reply_to cc bcc)
     \<or> DEFAULT_FROM_EMAIL st1 = DEFAULT_FROM_EMAIL st2
     \<or> (\<not> truthy (DEFAULT_FROM_EMAIL st1) \<and> \<not> truthy (DEFAULT_FROM_EMAIL st2))"
proof (cases call)
  case (SendTemplateEmail to template_id params sender reply_to cc bcc)
  then show ?thesis
    by simp
next
  case (SendEmail to subject html_content sender text_content reply_to cc bcc)
  show ?thesis
  proof (cases sender)
    case (Some s)
    have "send_email st1 c to subject html_content (Some s) text_content reply_to cc bcc net
            = send_email st2 c to subject html_content (Some s) text_content reply_to cc bcc net"
      by (rule send_email_same_default) simp
    with SendEmail Some show ?thesis
      by simp
  next
    case None
    have "send_email st1 c to subject html_content None text_content reply_to cc bcc net
            = send_email st2 c to subject html_content None text_content reply_to cc bcc net
          \<longleftrightarrow> DEFAULT_FROM_EMAIL st1 = DEFAULT_FROM_EMAIL st2
            \<or> (\<not> truthy (DEFAULT_FROM_EMAIL st1) \<and> \<not> truthy (DEFAULT_FROM_EMAIL st2))"
      (is "?same \<longleftrightarrow> ?cond")
    proof
      assume ?cond
      then show ?same
        by (intro send_email_same_default) simp
    next
      assume same: ?same
      show ?cond
      proof (cases "truthy (DEFAULT_FROM_EMAIL st1)")
        case True
        with same have "DEFAULT_FROM_EMAIL st1 = DEFAULT_FROM_EMAIL st2"
          by (rule send_email_other_default)
        then show ?thesis
          by simp
      next
        case False
        show ?thesis
        proof (cases "truthy (DEFAULT_FROM_EMAIL st2)")
          case True
          from same [symmetric] True have "DEFAULT_FROM_EMAIL st2 = DEFAULT_FROM_EMAIL st1"
            by (rule send_email_other_default)
          then show ?thesis
            by simp
        next
          case False
          with \<open>\<not> truthy (DEFAULT_FROM_EMAIL st1)\<close> show ?thesis
            by simp
        qed
      qed
    qed
    with SendEmail None show ?thesis
      by simp
  qed
qed

text \<open>
  A template send and a \<open>send_email\<close> with a sender, each under two settings objects
  that differ in every field; a \<open>send_email\<close> without a sender under no default and
  under the empty default, and under two settings objects that agree on the default
  sender only.
\<close>

theorem invoke_settings_dependence_witness:
  "invoke st0 c0 (SendTemplateEmail [[(''email'', ''a@b.com'')]] 42 None None None None None) net0
     = invoke st_blank c0
         (SendTemplateEmail [[(''email'', ''a@b.com'')]] 42 None None None None None) net0
   \<and> invoke st0 c0
       (SendEmail [[(''email'', ''a@b.com'')]] ''S'' ''<p>x</p>'' (Some [(''email'', ''s@b.com'')])
          None None None None) net0
     = invoke st_blank c0
         (SendEmail [[(''email'', ''a@b.com'')]] ''S'' ''<p>x</p>''
            (Some [(''email'', ''s@b.com'')]) None None None None) net0
   \<and> invoke st_blank c0
       (SendEmail [[(''email'', ''a@b.com'')]] ''S'' ''<p>x</p>'' None None None None None) net0
     = invoke (st0\<lparr>DEFAULT_FROM_EMAIL := Some []\<rparr>) c0
         (SendEmail [[(''email'', ''a@b.com'')]] ''S'' ''<p>x</p>'' None None None None None) net0
   \<and> invoke st0 c0
       (SendEmail [[(''email'', ''a@b.com'')]] ''S'' ''<p>x</p>'' None None None None None) net0
     = invoke (st_blank\<lparr>DEFAULT_FROM_EMAIL := Some ''d@b.com''\<rparr>) c0
         (SendEmail [[(''email'', ''a@b.com'')]] ''S'' ''<p>x</p>'' None None None None None) net0"
  using
    invoke_settings_dependence [of st0 c0
      "SendTemplateEmail [[(''email'', ''a@b.com'')]] 42 None None None None None" net0 st_blank]
    invoke_settings_dependence [of st0 c0
      "SendEmail [[(''email'', ''a@b.com'')]] ''S'' ''<p>x</p>'' (Some [(''email'', ''s@b.com'')])
         None None None None" net0 st_blank]
    invoke_settings_dependence [of st_blank c0
      "SendEmail [[(''email'', ''a@b.com'')]] ''S'' ''<p>x</p>'' None None None None None" net0
      "st0\<lparr>DEFAULT_FROM_EMAIL := Some []\<rparr>"]
    invoke_settings_dependence [of st0 c0
      "SendEmail [[(''email'', ''a@b.com'')]] ''S'' ''<p>x</p>'' None None None None None" net0
      "st_blank\<lparr>DEFAULT_FROM_EMAIL := Some ''d@b.com''\<rparr>"]
  by (simp add: st0_def st_blank_def)

text \<open>
  C9. \<open>_apply_sandbox\<close> returns the reference it was given, and the dict behind that
  reference afterwards is the payload of \<open>apply_sandbox\<close>: it is updated in place.
  No other object of the store changes. Every key of the payload other than
  \<open>headers\<close> maps to what it mapped to before. With the sandbox flag off the whole
  store, the payload included, is as before.
\<close>

theorem apply_sandbox_ref_frame:
  "fst (apply_sandbox_ref c payload h) = payload
   \<and> snd (apply_sandbox_ref c payload h) payload = apply_sandbox c (h payload)
   \<and> (\<forall>q. q \<noteq> payload \<longrightarrow> snd (apply_sandbox_ref c payload h) q = h q)
   \<and> (\<forall>k. k \<noteq> ''headers'' \<longrightarrow>
         map_of (snd (apply_sandbox_ref c payload h) payload) k = map_of (h payload) k)
   \<and> (\<not> sandbox c \<longrightarrow> snd (apply_sandbox_ref c payload h) = h)"
  by (simp add: apply_sandbox_ref_def apply_sandbox_def AList.update_conv')

text \<open>
  A store with two payloads, the first of them with a \<open>headers\<close> key of its own, under
  a client with the sandbox flag on and under one with the flag off.
\<close>

theorem apply_sandbox_ref_frame_witness:
  "fst (apply_sandbox_ref c1 0 h0) = 0
   \<and> snd (apply_sandbox_ref c1 0 h0) 0
       = [(''to'', JList []), (''headers'', JDict [(''X-Sib-Sandbox'', JStr ''drop'')])]
   \<and> (1::nat) \<noteq> 0 \<and> snd (apply_sandbox_ref c1 0 h0) 1 = h0 1
   \<and> ''to'' \<noteq> ''headers''
   \<and> map_of (snd (apply_sandbox_ref c1 0 h0) 0) ''to'' = map_of (h0 0) ''to''
   \<and> \<not> sandbox c0 \<and> snd (apply_sandbox_ref c0 0 h0) = h0"
  using apply_sandbox_ref_frame [of c1 0 h0] apply_sandbox_ref_frame [of c0 0 h0]
  by (simp add: c0_def c1_def h0_def apply_sandbox_def sandbox_headers_def)

text \<open>
  C10. A 2xx answer whose body is not valid JSON should make \<open>send_email\<close> and
  \<open>send_template_email\<close> return the empty dict and not raise. They do when the
  parser fails with a \<open>ValueError\<close> (\<open>send_email_malformed_success\<close>,
  \<open>send_template_email_malformed_success\<close>). They do not when the body nests too
  deep for the parser: the \<open>RecursionError\<close> of \<open>response.json()\<close> passes
  \<open>except ValueError\<close> and both operations raise it. Here: a remote end that answers
  with status 200 and a body of 100000 opening brackets.
\<close>

theorem success_with_deep_body:
  "is_success (deep_response 200)
   \<and> fst (send_template_email c0 [[(''email'', ''a@b.com'')]] 12 None None None None None
            (net_deep 200)) = Inl RecursionError
   \<and> fst (send_email st0 c0 [[(''email'', ''a@b.com'')]] ''S'' ''<p>x</p>''
            (Some [(''email'', ''s@b.com'')]) None None None None (net_deep 200))
       = Inl RecursionError"
proof -
  have d: "parsed (deep_response 200) = TooDeep"
    by (simp only: deep_response_def response.simps)
  have s: "is_success (deep_response 200)"
    by (simp only: is_success_def deep_response_def response.simps) simp
  have p: "fst (post c e p (net_deep 200)) = Inl RecursionError" for c e p
    by (simp only: fst_post net_deep_def network.simps sum.case handle_response_too_deep [OF d])
  from send_template_email_payload [of c0 "[[(''email'', ''a@b.com'')]]" 12 None None None None
      None "net_deep 200"]
  have t: "fst (send_template_email c0 [[(''email'', ''a@b.com'')]] 12 None None None None None
            (net_deep 200)) = Inl RecursionError"
    using p by auto
  have "(\<exists>s. Some [(''email'', ''s@b.com'')] = Some (s :: str_dict))
          \<or> truthy (DEFAULT_FROM_EMAIL st0)"
    by simp
  from send_email_resolved [OF this, of c0 "[[(''email'', ''a@b.com'')]]" "''S''" "''<p>x</p>''"
      None None None None "net_deep 200"]
  have "fst (send_email st0 c0 [[(''email'', ''a@b.com'')]] ''S'' ''<p>x</p>''
            (Some [(''email'', ''s@b.com'')]) None None None None (net_deep 200))
       = Inl RecursionError"
    using p by auto
  with s t show ?thesis
    by simp
qed

end
